theory Spec2Isabelle
  imports Complex_Main
begin

section \<open>The computation graph that \<open>models/wide-resnet.py\<close> builds\<close>

text \<open>
  The file defines one class, \<open>WideRes22\<close>, whose constructor builds a static computation
  graph by calling the primitives of a tensor framework, and one method, \<open>res_group\<close>,
  which the constructor calls three times.

  The framework is not part of the repository. Each of its primitives is modelled by what
  a call does at graph-construction time: it either raises, or returns the symbolic tensor
  it creates, appends that tensor to the operations of the graph under the name scope in
  force and, for the calls that own parameters, enters the parameters in the variable
  store and in the collection of trainable variables. The checks that the framework makes
  at a call are part of the model where the source can reach them: a variable is created
  only under a name the store does not hold yet and with a shape without negative
  dimension, a placeholder has no negative dimension, a convolution has positive strides
  and a four-dimensional input whose channels fit the filter, and a pooling window fits
  into its input.

  Python integers are \<open>int\<close>; the tuple \<open>out_channels\<close> is an \<open>int list\<close>; the Python floats
  that only travel as arguments (\<open>stddev\<close>, \<open>decay\<close>, \<open>l2_reg_lambda\<close>, \<open>learning_rate\<close>) are
  \<open>real\<close>.
\<close>

subsection \<open>Name scopes, variables and tensors\<close>

text \<open>
  \<open>NoScope\<close> is the root scope, \<open>Named s\<close> is \<open>tf.name_scope(s)\<close> and
  \<open>BlockConv g b k\<close> is \<open>tf.name_scope("%s-%s_conv_k" % (g, b))\<close>: the format
  arguments are kept instead of the formatted string.
\<close>

datatype scope = NoScope | Named string | BlockConv int nat nat

datatype initializer = TruncatedNormal real

text \<open>
  \<open>Weight name shape init\<close> is a variable that the source creates with
  \<open>tf.get_variable(shape=..., initializer=..., name=...)\<close>. Its name is the one the source
  passes: \<open>tf.get_variable\<close> takes no account of \<open>tf.name_scope\<close>.
  \<open>LayerParam sc layer role\<close> is a trainable parameter that a layer call creates by
  itself (\<open>beta\<close> and \<open>gamma\<close> of a batch normalisation, \<open>kernel\<close> and \<open>bias\<close> of a dense
  layer) when called under the name scope \<open>sc\<close>.
\<close>

datatype variable =
    Weight string "int list" initializer
  | LayerParam scope string string

datatype dtype = Float32 | Bool

datatype tensor =
    Placeholder dtype "int option list option" string
  | Var variable
  | Conv2d tensor tensor "int list" string string
  | BatchNorm tensor real bool bool tensor bool
  | Relu tensor string
  | Add tensor tensor
  | AvgPool2d tensor int "int list" string string
  | Flatten tensor
  | Dense tensor bool int string
  | ArgMax tensor int "string option"
  | L2Loss tensor
  | AddN "tensor list"
  | SoftmaxCrossEntropyWithLogits tensor tensor
  | ReduceMean tensor "string option"
  | Const real
  | Mul tensor tensor
  | Equal tensor tensor
  | Cast tensor string

datatype error = IndexError | TypeError | ValueError | AssertionError

text \<open>
  The state that construction acts on: the default graph (its operations in creation
  order, each with the name scope it was created under), the names held by the variable
  store, the collection of trainable variables, and the lines written to standard
  output. A batch normalisation opens a variable scope of its own under a name that the
  framework makes unique, so the names of its parameters never meet another name; they
  are not entered in \<open>variable_store\<close>.
\<close>

record world =
  graph_ops :: "(scope \<times> tensor) list"
  variable_store :: "string list"
  trainable_variables :: "variable list"
  stdout :: "string list"

definition empty_world :: world where
  "empty_world = \<lparr>graph_ops = [], variable_store = [], trainable_variables = [], stdout = []\<rparr>"

subsection \<open>Statements in sequence\<close>

text \<open>
  A statement takes the world and gives back either the exception it raised or its
  value, and the world as it left it. \<open>and_then m f\<close> runs \<open>m\<close> and, unless it raised,
  runs \<open>f\<close> on its value.
\<close>

definition ok :: "'a \<Rightarrow> world \<Rightarrow> (error + 'a) \<times> world" where
  "ok a w = (Inr a, w)"

definition raise :: "error \<Rightarrow> world \<Rightarrow> (error + 'a) \<times> world" where
  "raise e w = (Inl e, w)"

definition and_then ::
  "(world \<Rightarrow> (error + 'a) \<times> world) \<Rightarrow> ('a \<Rightarrow> world \<Rightarrow> (error + 'b) \<times> world)
     \<Rightarrow> world \<Rightarrow> (error + 'b) \<times> world" where
  "and_then m f w = (case m w of (Inl e, w') \<Rightarrow> (Inl e, w') | (Inr a, w') \<Rightarrow> f a w')"

subsection \<open>Static shapes\<close>

text \<open>
  The static shape of a tensor: \<open>None\<close> when the rank is unknown, else one entry per
  dimension, \<open>None\<close> for an unknown one. \<open>out_dim\<close> is the size of a windowed dimension:
  the ceiling of \<open>n / s\<close> under \<open>SAME\<close> padding, \<open>(n - k) div s + 1\<close> otherwise;
  a window of size \<open>k\<close> \<open>fits\<close> a dimension that is unknown or at least \<open>k\<close>.
  The shape of a sum is given for operands of one shape only.
\<close>

definition out_dim :: "string \<Rightarrow> int \<Rightarrow> int \<Rightarrow> int option \<Rightarrow> int option" where
  "out_dim padding k s n =
     (case n of None \<Rightarrow> None
      | Some m \<Rightarrow> Some (if padding = ''SAME'' then (m + s - 1) div s else (m - k) div s + 1))"

definition fits :: "int \<Rightarrow> int option \<Rightarrow> bool" where
  "fits k n = (case n of None \<Rightarrow> True | Some m \<Rightarrow> k \<le> m)"

definition all_known :: "int option list \<Rightarrow> int list option" where
  "all_known ds = (if list_all (\<lambda>d. d \<noteq> None) ds then Some (map the ds) else None)"

fun static_shape :: "tensor \<Rightarrow> int option list option" where
  "static_shape (Placeholder dt shp name) = shp"
| "static_shape (Var (Weight name shp ini)) = Some (map Some shp)"
| "static_shape (Conv2d x W strides padding name) =
     (case (static_shape x, static_shape W, strides) of
        (Some [b, h, w, c], Some [Some kh, Some kw, ci, co], [s0, sh, sw, s3]) \<Rightarrow>
          Some [b, out_dim padding kh sh h, out_dim padding kw sw w, co]
      | (None, Some [kh, kw, ci, co], strides) \<Rightarrow> Some [None, None, None, co]
      | _ \<Rightarrow> None)"
| "static_shape (BatchNorm x decay center scale is_training zd) = static_shape x"
| "static_shape (Relu x name) = static_shape x"
| "static_shape (Add a b) = (if static_shape a = static_shape b then static_shape a else None)"
| "static_shape (AvgPool2d x k strides padding name) =
     (case static_shape x of
        Some [b, h, w, c] \<Rightarrow> Some [b, out_dim ''VALID'' k 1 h, out_dim ''VALID'' k 1 w, c]
      | _ \<Rightarrow> None)"
| "static_shape (Flatten x) =
     (case static_shape x of
        Some (b # ds) \<Rightarrow> Some [b, map_option prod_list (all_known ds)]
      | _ \<Rightarrow> None)"
| "static_shape (Dense x use_bias units name) =
     (case static_shape x of
        Some ds \<Rightarrow> Some (butlast ds @ [Some units])
      | None \<Rightarrow> None)"
| "static_shape t = None"

text \<open>
  \<open>int(np.shape(t)[-1])\<close>: the last dimension of the static shape of \<open>t\<close>, \<open>None\<close> where
  it is not a known integer (the conversion raises there).
\<close>

definition channels :: "tensor \<Rightarrow> int option" where
  "channels t =
     (case static_shape t of
        None \<Rightarrow> None
      | Some ds \<Rightarrow> (if ds = [] then None else last ds))"

subsection \<open>The framework calls the source makes\<close>

definition py_print :: "string \<Rightarrow> world \<Rightarrow> (error + unit) \<times> world" where
  "py_print s w = (Inr (), w\<lparr>stdout := stdout w @ [s]\<rparr>)"

text \<open>\<open>t[i]\<close> on a tuple, for the non-negative indices the source uses.\<close>

definition py_index :: "int list \<Rightarrow> nat \<Rightarrow> world \<Rightarrow> (error + int) \<times> world" where
  "py_index t i w = (if i < length t then (Inr (t ! i), w) else (Inl IndexError, w))"

definition new_op :: "scope \<Rightarrow> tensor \<Rightarrow> world \<Rightarrow> (error + tensor) \<times> world" where
  "new_op sc t w = (Inr t, w\<lparr>graph_ops := graph_ops w @ [(sc, t)]\<rparr>)"

definition tf_placeholder ::
  "dtype \<Rightarrow> int option list option \<Rightarrow> string \<Rightarrow> world \<Rightarrow> (error + tensor) \<times> world" where
  "tf_placeholder dt shp name w =
     (if (case shp of None \<Rightarrow> False
          | Some ds \<Rightarrow> list_ex (\<lambda>d. case d of None \<Rightarrow> False | Some n \<Rightarrow> n < 0) ds)
      then (Inl ValueError, w)
      else new_op NoScope (Placeholder dt shp name) w)"

text \<open>
  \<open>tf.get_variable(shape, initializer, name)\<close> with the default \<open>reuse\<close>: it raises
  \<open>ValueError\<close> when the store holds a variable of that name already, whatever name scope
  is in force, and when a dimension is negative; else it creates the variable, at the
  root name scope.
\<close>

definition tf_get_variable ::
  "int list \<Rightarrow> initializer \<Rightarrow> string \<Rightarrow> world \<Rightarrow> (error + tensor) \<times> world" where
  "tf_get_variable shp ini name w =
     (if name \<in> set (variable_store w) \<or> list_ex (\<lambda>d. d < 0) shp
      then (Inl ValueError, w)
      else new_op NoScope (Var (Weight name shp ini))
             (w\<lparr>variable_store := variable_store w @ [name],
                trainable_variables := trainable_variables w @ [Weight name shp ini]\<rparr>))"

text \<open>
  \<open>tf.nn.conv2d\<close> raises \<open>ValueError\<close> unless the strides are \<open>[1, sh, sw, 1]\<close> with
  positive \<open>sh\<close> and \<open>sw\<close>, the filter has a known shape of rank 4, and the input has
  unknown rank or rank 4 with, where they are known, as many channels as the filter
  takes and spatial dimensions that hold the window under \<open>VALID\<close> padding.
\<close>

definition conv2d_defined :: "tensor \<Rightarrow> tensor \<Rightarrow> int list \<Rightarrow> string \<Rightarrow> bool" where
  "conv2d_defined x W strides padding =
     (case (static_shape W, strides) of
        (Some [Some kh, Some kw, Some ci, Some co], [s0, sh, sw, s3]) \<Rightarrow>
          s0 = 1 \<and> s3 = 1 \<and> 0 < sh \<and> 0 < sw \<and>
          (case static_shape x of
             None \<Rightarrow> True
           | Some [b, h, w, c] \<Rightarrow>
               (c = None \<or> c = Some ci) \<and>
               (padding = ''SAME'' \<or>
                (fits kh h \<and> fits kw w))
           | Some ds \<Rightarrow> False)
      | _ \<Rightarrow> False)"

definition tf_conv2d ::
  "scope \<Rightarrow> tensor \<Rightarrow> tensor \<Rightarrow> int list \<Rightarrow> string \<Rightarrow> string \<Rightarrow> world
     \<Rightarrow> (error + tensor) \<times> world" where
  "tf_conv2d sc x W strides padding name w =
     (if conv2d_defined x W strides padding
      then new_op sc (Conv2d x W strides padding name) w
      else (Inl ValueError, w))"

text \<open>
  \<open>tf.contrib.layers.batch_norm\<close>: its own checks (a known rank and a known last
  dimension of the input) hold wherever the source calls it, as the last dimension has
  been read, or is that of a convolution, before.
\<close>

definition tf_batch_norm ::
  "scope \<Rightarrow> tensor \<Rightarrow> real \<Rightarrow> bool \<Rightarrow> bool \<Rightarrow> tensor \<Rightarrow> bool \<Rightarrow> world
     \<Rightarrow> (error + tensor) \<times> world" where
  "tf_batch_norm sc x decay center scale is_training zero_debias w =
     new_op sc (BatchNorm x decay center scale is_training zero_debias)
       (w\<lparr>trainable_variables := trainable_variables w
            @ (if center then [LayerParam sc ''BatchNorm'' ''beta''] else [])
            @ (if scale then [LayerParam sc ''BatchNorm'' ''gamma''] else [])\<rparr>)"

definition tf_relu :: "scope \<Rightarrow> tensor \<Rightarrow> string \<Rightarrow> world \<Rightarrow> (error + tensor) \<times> world" where
  "tf_relu sc x name w = new_op sc (Relu x name) w"

definition tf_add :: "scope \<Rightarrow> tensor \<Rightarrow> tensor \<Rightarrow> world \<Rightarrow> (error + tensor) \<times> world" where
  "tf_add sc a b w = new_op sc (Add a b) w"

text \<open>
  \<open>tflearn.layers.conv.avg_pool_2d\<close> with \<open>padding="valid"\<close>: it asserts that its input
  has rank 4 (an unknown rank raises \<open>ValueError\<close>), and the pooling raises \<open>ValueError\<close>
  when a known spatial dimension is smaller than the window.
\<close>

definition avg_pool_2d ::
  "scope \<Rightarrow> tensor \<Rightarrow> int \<Rightarrow> int list \<Rightarrow> string \<Rightarrow> string \<Rightarrow> world
     \<Rightarrow> (error + tensor) \<times> world" where
  "avg_pool_2d sc x kernel_size strides padding name w =
     (case static_shape x of
        None \<Rightarrow> (Inl ValueError, w)
      | Some [b, h, w', c] \<Rightarrow>
          (if fits kernel_size h \<and> fits kernel_size w'
           then new_op sc (AvgPool2d x kernel_size strides padding name) w
           else (Inl ValueError, w))
      | Some ds \<Rightarrow> (Inl AssertionError, w))"

definition tf_flatten :: "scope \<Rightarrow> tensor \<Rightarrow> world \<Rightarrow> (error + tensor) \<times> world" where
  "tf_flatten sc x w = new_op sc (Flatten x) w"

text \<open>
  \<open>tf.layers.dense(..., name=...)\<close> creates \<open>name/kernel\<close> and, with a bias,
  \<open>name/bias\<close>; it raises \<open>ValueError\<close> when the store holds one of them already.
\<close>

definition tf_dense ::
  "scope \<Rightarrow> tensor \<Rightarrow> bool \<Rightarrow> int \<Rightarrow> string \<Rightarrow> world \<Rightarrow> (error + tensor) \<times> world" where
  "tf_dense sc x use_bias units name w =
     (if name @ ''/kernel'' \<in> set (variable_store w)
         \<or> (use_bias \<and> name @ ''/bias'' \<in> set (variable_store w))
      then (Inl ValueError, w)
      else new_op sc (Dense x use_bias units name)
             (w\<lparr>variable_store := variable_store w @ [name @ ''/kernel'']
                    @ (if use_bias then [name @ ''/bias''] else []),
                trainable_variables := trainable_variables w
                    @ [LayerParam sc name ''kernel'']
                    @ (if use_bias then [LayerParam sc name ''bias''] else [])\<rparr>))"

definition tf_argmax ::
  "scope \<Rightarrow> tensor \<Rightarrow> int \<Rightarrow> string option \<Rightarrow> world \<Rightarrow> (error + tensor) \<times> world" where
  "tf_argmax sc x axis name w = new_op sc (ArgMax x axis name) w"

text \<open>\<open>[tf.nn.l2_loss(var) for var in tf.trainable_variables()]\<close>: one operation per
  variable of the collection as it is when the comprehension runs.\<close>

definition tf_l2_losses :: "scope \<Rightarrow> world \<Rightarrow> (error + tensor list) \<times> world" where
  "tf_l2_losses sc w =
     (let ts = map (\<lambda>v. L2Loss (Var v)) (trainable_variables w)
      in (Inr ts, w\<lparr>graph_ops := graph_ops w @ map (Pair sc) ts\<rparr>))"

text \<open>\<open>tf.add_n\<close> raises \<open>ValueError\<close> on an empty list.\<close>

definition tf_add_n :: "scope \<Rightarrow> tensor list \<Rightarrow> world \<Rightarrow> (error + tensor) \<times> world" where
  "tf_add_n sc ts w = (if ts = [] then (Inl ValueError, w) else new_op sc (AddN ts) w)"

definition tf_softmax_cross_entropy_with_logits ::
  "scope \<Rightarrow> tensor \<Rightarrow> tensor \<Rightarrow> world \<Rightarrow> (error + tensor) \<times> world" where
  "tf_softmax_cross_entropy_with_logits sc logits labels w =
     new_op sc (SoftmaxCrossEntropyWithLogits logits labels) w"

definition tf_reduce_mean ::
  "scope \<Rightarrow> tensor \<Rightarrow> string option \<Rightarrow> world \<Rightarrow> (error + tensor) \<times> world" where
  "tf_reduce_mean sc x name w = new_op sc (ReduceMean x name) w"

text \<open>\<open>c * t\<close> with a Python float \<open>c\<close> on the left: the float becomes a constant.\<close>

definition tf_rmul :: "scope \<Rightarrow> real \<Rightarrow> tensor \<Rightarrow> world \<Rightarrow> (error + tensor) \<times> world" where
  "tf_rmul sc c t w = new_op sc (Mul (Const c) t) w"

definition tf_equal :: "scope \<Rightarrow> tensor \<Rightarrow> tensor \<Rightarrow> world \<Rightarrow> (error + tensor) \<times> world" where
  "tf_equal sc a b w = new_op sc (Equal a b) w"

definition tf_cast :: "scope \<Rightarrow> tensor \<Rightarrow> string \<Rightarrow> world \<Rightarrow> (error + tensor) \<times> world" where
  "tf_cast sc x ty w = new_op sc (Cast x ty) w"

subsection \<open>\<open>res_group\<close>\<close>

text \<open>
  The body of the loop \<open>for block_num in range(n_blocks)\<close>. The loop carries \<open>shortcut\<close>
  and \<open>stride\<close>; the body returns their new values. \<open>flag\<close> is \<open>self.train_flag\<close>.
  \<open>block_num is 0\<close> is the test \<open>block_num = 0\<close> (the interpreter shares small integers).
  The addition of the \<open>else\<close> branch is made outside every \<open>with\<close> block.
\<close>

definition res_block ::
  "tensor \<Rightarrow> int \<Rightarrow> int \<Rightarrow> nat \<Rightarrow> tensor \<Rightarrow> int \<Rightarrow> world \<Rightarrow> (error + tensor \<times> int) \<times> world" where
  "res_block flag out_channels group_id block_num shortcut stride =
     (case channels shortcut of
        None \<Rightarrow> raise TypeError
      | Some in_dim \<Rightarrow>
         and_then (tf_batch_norm (BlockConv group_id (block_num + 1) 1) shortcut
                     (9/10) True True flag True) (\<lambda>bn_1.
         and_then (tf_relu (BlockConv group_id (block_num + 1) 1) bn_1 ''relu'') (\<lambda>out_1.
         and_then (tf_get_variable [3, 3, in_dim, out_channels]
                     (TruncatedNormal (1/10)) ''weight'') (\<lambda>W1.
         and_then (tf_conv2d (BlockConv group_id (block_num + 1) 1) out_1 W1
                     [1, stride, stride, 1] ''SAME'' ''conv'') (\<lambda>conv_1.
         and_then (tf_batch_norm (BlockConv group_id (block_num + 1) 2) conv_1
                     (9/10) True True flag True) (\<lambda>bn_2.
         and_then (tf_relu (BlockConv group_id (block_num + 1) 2) bn_2 ''relu'') (\<lambda>out_2.
         and_then (tf_get_variable [3, 3, out_channels, out_channels]
                     (TruncatedNormal (1/10)) ''weight'') (\<lambda>W2.
         and_then (tf_conv2d (BlockConv group_id (block_num + 1) 2) out_2 W2
                     [1, 1, 1, 1] ''SAME'' ''conv'') (\<lambda>conv_2.
         if block_num = 0 then
           and_then (tf_get_variable [1, 1, in_dim, out_channels]
                       (TruncatedNormal (1/10)) ''weight'') (\<lambda>W3.
           and_then (tf_conv2d (BlockConv group_id (block_num + 1) 3) out_1 W3
                       [1, stride, stride, 1] ''VALID'' ''conv'') (\<lambda>conv_3.
           and_then (tf_add (BlockConv group_id (block_num + 1) 3) conv_2 conv_3)
             (\<lambda>shortcut'. ok (shortcut', 1))))
         else
           and_then (tf_add NoScope conv_2 shortcut)
             (\<lambda>shortcut'. ok (shortcut', stride)))))))))))"

text \<open>The loop over the block numbers still to run; an exception ends it.\<close>

fun res_blocks ::
  "tensor \<Rightarrow> int \<Rightarrow> int \<Rightarrow> nat list \<Rightarrow> tensor \<Rightarrow> int \<Rightarrow> world \<Rightarrow> (error + tensor) \<times> world" where
  "res_blocks flag out_channels group_id [] shortcut stride w = (Inr shortcut, w)"
| "res_blocks flag out_channels group_id (block_num # rest) shortcut stride w =
     (case res_block flag out_channels group_id block_num shortcut stride w of
        (Inl e, w') \<Rightarrow> (Inl e, w')
      | (Inr (shortcut', stride'), w') \<Rightarrow>
          res_blocks flag out_channels group_id rest shortcut' stride' w')"

text \<open>\<open>range(n_blocks)\<close> is \<open>[0..<nat n_blocks]\<close>: empty when \<open>n_blocks \<le> 0\<close>.\<close>

definition res_group ::
  "tensor \<Rightarrow> tensor \<Rightarrow> int \<Rightarrow> int \<Rightarrow> int \<Rightarrow> int \<Rightarrow> world \<Rightarrow> (error + tensor) \<times> world" where
  "res_group flag input_x stride out_channels n_blocks group_id w =
     res_blocks flag out_channels group_id [0..<nat n_blocks] input_x stride w"

subsection \<open>The constructor\<close>

text \<open>The attributes that the constructor sets on the object.\<close>

record WideRes22 =
  input_x :: tensor
  input_y :: tensor
  train_flag :: tensor
  out :: tensor
  scores :: tensor
  predictions :: tensor
  loss :: tensor
  accuracy :: tensor

text \<open>
  \<open>WideRes22.__init__\<close>, statement by statement. It acts on the world it is started in
  and either sets the attributes or ends with an exception; the operations and lines
  written before an exception stay in the world. \<open>learning_rate\<close> is a parameter that
  the body never uses.
\<close>

definition WideRes22_init ::
  "int \<Rightarrow> int \<Rightarrow> int \<Rightarrow> int list \<Rightarrow> int \<Rightarrow> int \<Rightarrow> real \<Rightarrow> real \<Rightarrow> world
     \<Rightarrow> (error + WideRes22) \<times> world" where
  "WideRes22_init img_dim n_classes in_channels out_channels width_mult n_blocks
       learning_rate l2_reg_lambda =
     and_then (py_print ''Initialising placeholders ...'') (\<lambda>_.
     and_then (tf_placeholder Float32
                 (Some [None, Some img_dim, Some img_dim, Some in_channels]) ''input_x'') (\<lambda>x.
     and_then (tf_placeholder Float32 (Some [None, Some n_classes]) ''input_y'') (\<lambda>y.
     and_then (tf_placeholder Bool None ''train_flag'') (\<lambda>flag.
     and_then (py_index out_channels 0) (\<lambda>oc0.
     and_then (tf_get_variable [3, 3, in_channels, oc0] (TruncatedNormal (1/10)) ''weight'') (\<lambda>W.
     and_then (tf_conv2d (Named ''conv_0'') x W [1, 1, 1, 1] ''SAME'' ''conv'') (\<lambda>h.
     and_then (py_print ''Computing Residual Group 1 ...'') (\<lambda>_.
     and_then (res_group flag h 1 (oc0 * width_mult) n_blocks 1) (\<lambda>h.
     and_then (py_print ''Computing Residual Group 2 ...'') (\<lambda>_.
     and_then (py_index out_channels 1) (\<lambda>oc1.
     and_then (res_group flag h 2 (oc1 * width_mult) n_blocks 2) (\<lambda>h.
     and_then (py_print ''Computing Residual Group 3 ...'') (\<lambda>_.
     and_then (py_index out_channels 2) (\<lambda>oc2.
     and_then (res_group flag h 2 (oc2 * width_mult) n_blocks 3) (\<lambda>h.
     and_then (tf_batch_norm NoScope h (9/10) True True flag True) (\<lambda>bn.
     and_then (tf_relu NoScope bn ''relu'') (\<lambda>h.
     and_then (py_print ''Pooling outputs and calculating scores ...'') (\<lambda>_.
     and_then (avg_pool_2d NoScope h 8 [1, 1, 1, 1] ''valid'' ''avg-pool-2d'') (\<lambda>h.
     and_then (tf_flatten NoScope h) (\<lambda>h.
     and_then (tf_dense NoScope h True n_classes ''scores'') (\<lambda>sc.
     and_then (tf_argmax NoScope sc 1 (Some ''predictions'')) (\<lambda>pr.
     and_then (tf_l2_losses (Named ''loss'')) (\<lambda>l2s.
     and_then (tf_add_n (Named ''loss'') l2s) (\<lambda>l2_loss.
     and_then (tf_softmax_cross_entropy_with_logits (Named ''loss'') sc y) (\<lambda>losses.
     and_then (tf_reduce_mean (Named ''loss'') losses None) (\<lambda>mean_loss.
     and_then (tf_rmul (Named ''loss'') l2_reg_lambda l2_loss) (\<lambda>reg.
     and_then (tf_add (Named ''loss'') mean_loss reg) (\<lambda>ls.
     and_then (tf_argmax (Named ''accuracy'') y 1 None) (\<lambda>am.
     and_then (tf_equal (Named ''accuracy'') pr am) (\<lambda>correct_predictions.
     and_then (tf_cast (Named ''accuracy'') correct_predictions ''float'') (\<lambda>cst.
     and_then (tf_reduce_mean (Named ''accuracy'') cst (Some ''accuracy'')) (\<lambda>acc.
     ok \<lparr>input_x = x, input_y = y, train_flag = flag, out = h, scores = sc,
         predictions = pr, loss = ls, accuracy = acc\<rparr>))))))))))))))))))))))))))))))))"

section \<open>Vocabulary for stating the properties\<close>

text \<open>
  The definitions of this section are not taken from the source: they name the tensors,
  the operations and the variables that the properties below speak about.
  \<open>pre_act\<close> is \<open>relu(batch_norm(x))\<close> with the arguments the source always passes;
  \<open>ph_x\<close>, \<open>ph_y\<close>, \<open>ph_flag\<close> are the three placeholders; \<open>stem_weight\<close> and \<open>stem_out\<close>
  are the weight and the output of the first convolution.
\<close>

definition pre_act :: "tensor \<Rightarrow> tensor \<Rightarrow> tensor" where
  "pre_act flag x = Relu (BatchNorm x (9/10) True True flag True) ''relu''"

definition ph_x :: "int \<Rightarrow> int \<Rightarrow> tensor" where
  "ph_x img ic = Placeholder Float32 (Some [None, Some img, Some img, Some ic]) ''input_x''"

definition ph_y :: "int \<Rightarrow> tensor" where
  "ph_y ncls = Placeholder Float32 (Some [None, Some ncls]) ''input_y''"

definition ph_flag :: tensor where
  "ph_flag = Placeholder Bool None ''train_flag''"

definition stem_weight :: "int \<Rightarrow> int \<Rightarrow> variable" where
  "stem_weight ic oc0 = Weight ''weight'' [3, 3, ic, oc0] (TruncatedNormal (1/10))"

definition stem_out :: "int \<Rightarrow> int \<Rightarrow> int \<Rightarrow> tensor" where
  "stem_out img ic oc0 =
     Conv2d (ph_x img ic) (Var (stem_weight ic oc0)) [1, 1, 1, 1] ''SAME'' ''conv''"

text \<open>
  What a construction without residual blocks builds on top of the stem: the pooled and
  flattened activation, the scores, the variables it creates, the loss and the accuracy,
  the operations it adds in creation order, and the lines it prints. \<open>built\<close> is the
  object and the world that such a construction leaves.
\<close>

definition avg_pooled :: "tensor \<Rightarrow> tensor" where
  "avg_pooled t = AvgPool2d t 8 [1, 1, 1, 1] ''valid'' ''avg-pool-2d''"

definition net_out :: "int \<Rightarrow> int \<Rightarrow> int \<Rightarrow> tensor" where
  "net_out img ic oc0 = Flatten (avg_pooled (pre_act ph_flag (stem_out img ic oc0)))"

definition net_scores :: "int \<Rightarrow> int \<Rightarrow> int \<Rightarrow> int \<Rightarrow> tensor" where
  "net_scores img ncls ic oc0 = Dense (net_out img ic oc0) True ncls ''scores''"

definition new_vars :: "int \<Rightarrow> int \<Rightarrow> variable list" where
  "new_vars ic oc0 =
     [stem_weight ic oc0,
      LayerParam NoScope ''BatchNorm'' ''beta'', LayerParam NoScope ''BatchNorm'' ''gamma'',
      LayerParam NoScope ''scores'' ''kernel'', LayerParam NoScope ''scores'' ''bias'']"

definition l2_sum :: "variable list \<Rightarrow> tensor" where
  "l2_sum vars = AddN (map (\<lambda>v. L2Loss (Var v)) vars)"

definition mean_cross_entropy :: "tensor \<Rightarrow> tensor \<Rightarrow> tensor" where
  "mean_cross_entropy sc y = ReduceMean (SoftmaxCrossEntropyWithLogits sc y) None"

definition loss_expr :: "real \<Rightarrow> tensor \<Rightarrow> tensor \<Rightarrow> variable list \<Rightarrow> tensor" where
  "loss_expr lam sc y vars = Add (mean_cross_entropy sc y) (Mul (Const lam) (l2_sum vars))"

definition correct_expr :: "tensor \<Rightarrow> tensor \<Rightarrow> tensor" where
  "correct_expr sc y = Equal (ArgMax sc 1 (Some ''predictions'')) (ArgMax y 1 None)"

definition accuracy_expr :: "tensor \<Rightarrow> tensor \<Rightarrow> tensor" where
  "accuracy_expr sc y = ReduceMean (Cast (correct_expr sc y) ''float'') (Some ''accuracy'')"

definition new_ops ::
  "int \<Rightarrow> int \<Rightarrow> int \<Rightarrow> int \<Rightarrow> real \<Rightarrow> variable list \<Rightarrow> (scope \<times> tensor) list" where
  "new_ops img ncls ic oc0 lam vars =
     [(NoScope, ph_x img ic), (NoScope, ph_y ncls), (NoScope, ph_flag),
      (NoScope, Var (stem_weight ic oc0)), (Named ''conv_0'', stem_out img ic oc0),
      (NoScope, BatchNorm (stem_out img ic oc0) (9/10) True True ph_flag True),
      (NoScope, pre_act ph_flag (stem_out img ic oc0)),
      (NoScope, avg_pooled (pre_act ph_flag (stem_out img ic oc0))),
      (NoScope, net_out img ic oc0),
      (NoScope, net_scores img ncls ic oc0),
      (NoScope, ArgMax (net_scores img ncls ic oc0) 1 (Some ''predictions''))]
     @ map (Pair (Named ''loss''))
         (map (\<lambda>v. L2Loss (Var v)) vars
          @ [l2_sum vars,
             SoftmaxCrossEntropyWithLogits (net_scores img ncls ic oc0) (ph_y ncls),
             mean_cross_entropy (net_scores img ncls ic oc0) (ph_y ncls),
             Mul (Const lam) (l2_sum vars),
             loss_expr lam (net_scores img ncls ic oc0) (ph_y ncls) vars])
     @ map (Pair (Named ''accuracy''))
         [ArgMax (ph_y ncls) 1 None,
          correct_expr (net_scores img ncls ic oc0) (ph_y ncls),
          Cast (correct_expr (net_scores img ncls ic oc0) (ph_y ncls)) ''float'',
          accuracy_expr (net_scores img ncls ic oc0) (ph_y ncls)]"

definition progress_lines :: "string list" where
  "progress_lines =
     [''Initialising placeholders ...'', ''Computing Residual Group 1 ...'',
      ''Computing Residual Group 2 ...'', ''Computing Residual Group 3 ...'',
      ''Pooling outputs and calculating scores ...'']"

definition built :: "int \<Rightarrow> int \<Rightarrow> int \<Rightarrow> int \<Rightarrow> real \<Rightarrow> world \<Rightarrow> WideRes22 \<times> world" where
  "built img ncls ic oc0 lam w0 =
     (\<lparr>input_x = ph_x img ic, input_y = ph_y ncls, train_flag = ph_flag,
       out = net_out img ic oc0, scores = net_scores img ncls ic oc0,
       predictions = ArgMax (net_scores img ncls ic oc0) 1 (Some ''predictions''),
       loss = loss_expr lam (net_scores img ncls ic oc0) (ph_y ncls)
                (trainable_variables w0 @ new_vars ic oc0),
       accuracy = accuracy_expr (net_scores img ncls ic oc0) (ph_y ncls)\<rparr>,
      w0\<lparr>graph_ops := graph_ops w0
             @ new_ops img ncls ic oc0 lam (trainable_variables w0 @ new_vars ic oc0),
         variable_store := variable_store w0 @ [''weight'', ''scores/kernel'', ''scores/bias''],
         trainable_variables := trainable_variables w0 @ new_vars ic oc0,
         stdout := stdout w0 @ progress_lines\<rparr>)"

text \<open>Convolutions among the operations, and the variables made by \<open>tf.get_variable\<close>.\<close>

fun is_conv :: "tensor \<Rightarrow> bool" where
  "is_conv (Conv2d x W strides padding name) = True"
| "is_conv t = False"

fun is_weight :: "variable \<Rightarrow> bool" where
  "is_weight (Weight name shp ini) = True"
| "is_weight (LayerParam sc layer role) = False"

text \<open>
  The value of a float32 scalar: a finite number, an infinity, or not a number.
  \<open>fmul\<close> and \<open>fadd\<close> are the product and the sum of the arithmetic of the graph; \<open>rnd\<close>
  is its rounding, which gives the result of two finite non-zero operands (overflow
  included) and is left open. A product with a finite zero is zero, the product of zero
  and an infinity is not a number, and adding zero changes nothing.
\<close>

datatype f32 = Finite real | PosInf | NegInf | NaN

fun fmul :: "(real \<Rightarrow> f32) \<Rightarrow> f32 \<Rightarrow> f32 \<Rightarrow> f32" where
  "fmul rnd (Finite a) (Finite b) = (if a = 0 \<or> b = 0 then Finite 0 else rnd (a * b))"
| "fmul rnd (Finite a) PosInf = (if a = 0 then NaN else if 0 < a then PosInf else NegInf)"
| "fmul rnd (Finite a) NegInf = (if a = 0 then NaN else if 0 < a then NegInf else PosInf)"
| "fmul rnd PosInf (Finite b) = (if b = 0 then NaN else if 0 < b then PosInf else NegInf)"
| "fmul rnd NegInf (Finite b) = (if b = 0 then NaN else if 0 < b then NegInf else PosInf)"
| "fmul rnd PosInf PosInf = PosInf"
| "fmul rnd PosInf NegInf = NegInf"
| "fmul rnd NegInf PosInf = NegInf"
| "fmul rnd NegInf NegInf = PosInf"
| "fmul rnd NaN y = NaN"
| "fmul rnd x NaN = NaN"

fun fadd :: "(real \<Rightarrow> f32) \<Rightarrow> f32 \<Rightarrow> f32 \<Rightarrow> f32" where
  "fadd rnd (Finite a) (Finite b) =
     (if b = 0 then Finite a else if a = 0 then Finite b else rnd (a + b))"
| "fadd rnd (Finite a) PosInf = PosInf"
| "fadd rnd (Finite a) NegInf = NegInf"
| "fadd rnd PosInf (Finite b) = PosInf"
| "fadd rnd NegInf (Finite b) = NegInf"
| "fadd rnd PosInf PosInf = PosInf"
| "fadd rnd NegInf NegInf = NegInf"
| "fadd rnd PosInf NegInf = NaN"
| "fadd rnd NegInf PosInf = NaN"
| "fadd rnd NaN y = NaN"
| "fadd rnd x NaN = NaN"

text \<open>
  The value of a scalar tensor under an interpretation \<open>env\<close> of the operations that are
  not arithmetic: sums and products are computed, a constant is zero or rounded, every
  other tensor is looked up in \<open>env\<close>. \<open>overflowed_l2\<close> is an interpretation in which the
  sum of the L2 losses has overflowed; \<open>unit_values\<close> gives every operation the value 1.
\<close>

fun scalar :: "(real \<Rightarrow> f32) \<Rightarrow> (tensor \<Rightarrow> f32) \<Rightarrow> tensor \<Rightarrow> f32" where
  "scalar rnd env (Add a b) = fadd rnd (scalar rnd env a) (scalar rnd env b)"
| "scalar rnd env (Mul a b) = fmul rnd (scalar rnd env a) (scalar rnd env b)"
| "scalar rnd env (Const c) = (if c = 0 then Finite 0 else rnd c)"
| "scalar rnd env t = env t"

fun overflowed_l2 :: "tensor \<Rightarrow> f32" where
  "overflowed_l2 (AddN ts) = PosInf"
| "overflowed_l2 t = Finite 1"

definition unit_values :: "tensor \<Rightarrow> f32" where
  "unit_values t = Finite 1"

section \<open>What the loop and the constructor compute\<close>

lemmas tf_defs = new_op_def tf_placeholder_def tf_get_variable_def tf_conv2d_def
  tf_batch_norm_def tf_relu_def tf_add_def avg_pool_2d_def tf_flatten_def tf_dense_def
  tf_argmax_def tf_l2_losses_def tf_add_n_def tf_softmax_cross_entropy_with_logits_def
  tf_reduce_mean_def tf_rmul_def tf_equal_def tf_cast_def py_print_def py_index_def

lemma res_block_raises: "isl (fst (res_block flag oc g b x s w))"
  by (simp add: res_block_def and_then_def raise_def ok_def tf_defs split: option.split)

lemma res_group_raises:
  assumes "0 < n"
  shows "isl (fst (res_group flag x s oc n g w))"
proof -
  have range: "[0..<nat n] = 0 # [1..<nat n]"
    using assms by (simp add: upt_conv_Cons)
  obtain e w' where "res_block flag oc g 0 x s w = (Inl e, w')"
    using res_block_raises [of flag oc g 0 x s w]
    by (cases "res_block flag oc g 0 x s w") (auto simp: isl_def)
  then show ?thesis
    by (simp add: res_group_def range)
qed

lemma res_group_empty:
  "n \<le> 0 \<Longrightarrow> res_group flag x s oc n g = ok x"
  by (rule ext) (simp add: res_group_def ok_def)

lemma and_then_raises_now: "isl (fst (m w)) \<Longrightarrow> isl (fst (and_then m f w))"
  by (cases "m w") (auto simp: and_then_def isl_def)

lemma and_then_raises_later:
  "(\<And>a w'. isl (fst (f a w'))) \<Longrightarrow> isl (fst (and_then m f w))"
  by (cases "m w") (auto simp: and_then_def isl_def split: sum.splits)

lemma init_raises:
  assumes "0 < n"
  shows "isl (fst (WideRes22_init img ncls ic ocs wm n lr lam w0))"
  unfolding WideRes22_init_def
  apply (rule and_then_raises_later)
  apply (rule and_then_raises_later)
  apply (rule and_then_raises_later)
  apply (rule and_then_raises_later)
  apply (rule and_then_raises_later)
  apply (rule and_then_raises_later)
  apply (rule and_then_raises_later)
  apply (rule and_then_raises_later)
  apply (rule and_then_raises_now)
  apply (rule res_group_raises [OF assms])
  done

lemmas net_defs = pre_act_def ph_x_def ph_y_def ph_flag_def stem_weight_def stem_out_def
  avg_pooled_def net_out_def net_scores_def new_vars_def l2_sum_def mean_cross_entropy_def
  loss_expr_def correct_expr_def accuracy_expr_def new_ops_def progress_lines_def built_def

lemma stem_conv_defined [simp]:
  "conv2d_defined (Placeholder dt (Some [b, h, w, Some ic]) name)
     (Var (Weight nm [3, 3, ic, oc] ini)) [1, 1, 1, 1] ''SAME''"
  by (simp add: conv2d_defined_def)

lemma init_completes:
  assumes "n \<le> 0" and "3 \<le> length ocs" and "8 \<le> img" and "0 \<le> ic" and "0 \<le> ncls"
    and "0 \<le> ocs ! 0" and "''weight'' \<notin> set (variable_store w0)"
    and "''scores/kernel'' \<notin> set (variable_store w0)"
    and "''scores/bias'' \<notin> set (variable_store w0)"
  shows "WideRes22_init img ncls ic ocs wm n lr lam w0 =
           (Inr (fst (built img ncls ic (ocs ! 0) lam w0)),
            snd (built img ncls ic (ocs ! 0) lam w0))"
  using assms
  unfolding WideRes22_init_def
  by (auto simp: res_group_empty and_then_def ok_def tf_defs net_defs Let_def
      out_dim_def fits_def)

lemma init_completed:
  assumes "WideRes22_init img ncls ic ocs wm n lr lam w0 = (Inr m, w')"
  shows "n \<le> 0" and "3 \<le> length ocs" and "8 \<le> img"
    and "''weight'' \<notin> set (variable_store w0)"
    and "m = fst (built img ncls ic (ocs ! 0) lam w0)"
    and "w' = snd (built img ncls ic (ocs ! 0) lam w0)"
proof -
  show n: "n \<le> 0"
    using init_raises [of n img ncls ic ocs wm lr lam w0] assms by (cases "0 < n") auto
  have "WideRes22_init img ncls ic ocs wm n lr lam w0 = (Inr m, w')"
    by (rule assms)
  then have all: "3 \<le> length ocs \<and> 8 \<le> img \<and> ''weight'' \<notin> set (variable_store w0)
      \<and> m = fst (built img ncls ic (ocs ! 0) lam w0)
      \<and> w' = snd (built img ncls ic (ocs ! 0) lam w0)"
    unfolding WideRes22_init_def
    by (auto simp: res_group_empty [OF n] and_then_def ok_def tf_defs net_defs Let_def
        out_dim_def fits_def split: if_splits)
  then show "3 \<le> length ocs" and "8 \<le> img"
    and "''weight'' \<notin> set (variable_store w0)"
    and "m = fst (built img ncls ic (ocs ! 0) lam w0)"
    and "w' = snd (built img ncls ic (ocs ! 0) lam w0)"
    by simp_all
qed

lemma fadd_zero: "fadd rnd x (Finite 0) = x"
  by (cases x) simp_all

lemma channels_stem_out [simp]: "channels (stem_out img ic oc0) = Some oc0"
  by (simp add: channels_def stem_out_def stem_weight_def ph_x_def)

lemma res_group_after_weight:
  assumes "0 < n" and "channels x = Some d" and "''weight'' \<in> set (variable_store w)"
  shows "res_group flag x s oc n g w =
    (Inl ValueError,
     w\<lparr>graph_ops := graph_ops w
          @ [(BlockConv g 1 1, BatchNorm x (9/10) True True flag True),
             (BlockConv g 1 1, pre_act flag x)],
        trainable_variables := trainable_variables w
          @ [LayerParam (BlockConv g 1 1) ''BatchNorm'' ''beta'',
             LayerParam (BlockConv g 1 1) ''BatchNorm'' ''gamma'']\<rparr>)"
proof -
  have range: "[0..<nat n] = 0 # [1..<nat n]"
    using assms(1) by (simp add: upt_conv_Cons)
  show ?thesis
    using assms(2,3)
    by (simp add: res_group_def range res_block_def and_then_def tf_defs pre_act_def)
qed

lemma init_with_blocks:
  assumes "0 < n" and "ocs \<noteq> []" and "0 \<le> img" and "0 \<le> ic" and "0 \<le> ncls"
    and "0 \<le> ocs ! 0" and "''weight'' \<notin> set (variable_store w0)"
  shows "WideRes22_init img ncls ic ocs wm n lr lam w0 =
    (Inl ValueError,
     w0\<lparr>graph_ops := graph_ops w0
          @ [(NoScope, ph_x img ic), (NoScope, ph_y ncls), (NoScope, ph_flag),
             (NoScope, Var (stem_weight ic (ocs ! 0))),
             (Named ''conv_0'', stem_out img ic (ocs ! 0)),
             (BlockConv 1 1 1, BatchNorm (stem_out img ic (ocs ! 0)) (9/10) True True ph_flag True),
             (BlockConv 1 1 1, pre_act ph_flag (stem_out img ic (ocs ! 0)))],
        variable_store := variable_store w0 @ [''weight''],
        trainable_variables := trainable_variables w0
          @ [stem_weight ic (ocs ! 0),
             LayerParam (BlockConv 1 1 1) ''BatchNorm'' ''beta'',
             LayerParam (BlockConv 1 1 1) ''BatchNorm'' ''gamma''],
        stdout := stdout w0
          @ [''Initialising placeholders ...'', ''Computing Residual Group 1 ...'']\<rparr>)"
proof -
  have g: "res_group ph_flag (stem_out img ic (ocs ! 0)) 1 (ocs ! 0 * wm) n 1 w =
      (Inl ValueError,
       w\<lparr>graph_ops := graph_ops w
            @ [(BlockConv 1 1 1, BatchNorm (stem_out img ic (ocs ! 0)) (9/10) True True ph_flag True),
               (BlockConv 1 1 1, pre_act ph_flag (stem_out img ic (ocs ! 0)))],
          trainable_variables := trainable_variables w
            @ [LayerParam (BlockConv 1 1 1) ''BatchNorm'' ''beta'',
               LayerParam (BlockConv 1 1 1) ''BatchNorm'' ''gamma'']\<rparr>)"
    if "''weight'' \<in> set (variable_store w)" for w
    using res_group_after_weight [OF assms(1) channels_stem_out that] by simp
  show ?thesis
    using assms(2-7)
    unfolding WideRes22_init_def
    by (simp add: and_then_def tf_defs g [unfolded stem_out_def stem_weight_def ph_x_def ph_flag_def pre_act_def]
        stem_out_def stem_weight_def ph_x_def ph_y_def ph_flag_def pre_act_def)
qed

lemma init_example:
  "WideRes22_init 32 10 3 [16, 32, 64] wm 0 (1/10) lam empty_world =
     (Inr (fst (built 32 10 3 16 lam empty_world)), snd (built 32 10 3 16 lam empty_world))"
  using init_completes [of 0 "[16, 32, 64]" 32 3 10 empty_world wm "1/10" lam]
  by (simp add: empty_world_def)

section \<open>Properties\<close>

text \<open>
  C1. The claim is that construction builds placeholders, stem, three residual groups,
  normalisation and activation, pooling, classifier, loss and accuracy, in this order.
  The code does not: every convolution weight is created under the one name \<open>weight\<close>,
  so with \<open>n_blocks = 1\<close> (here \<open>img_dim = 32\<close>, \<open>n_classes = 10\<close>, \<open>in_channels = 3\<close>,
  \<open>out_channels = (16, 32, 64)\<close>, \<open>width_mult = 2\<close>, on an empty graph) the constructor
  raises \<open>ValueError\<close> in the first block of the first group, having built the
  placeholders, the stem and one batch normalisation with its ReLU, and printed two lines.
\<close>

theorem constructor_stops_in_first_group:
  "WideRes22_init 32 10 3 [16, 32, 64] 2 1 (1/10) 0 empty_world =
     (Inl ValueError,
      \<lparr>graph_ops =
         [(NoScope, Placeholder Float32 (Some [None, Some 32, Some 32, Some 3]) ''input_x''),
          (NoScope, Placeholder Float32 (Some [None, Some 10]) ''input_y''),
          (NoScope, Placeholder Bool None ''train_flag''),
          (NoScope, Var (stem_weight 3 16)),
          (Named ''conv_0'', stem_out 32 3 16),
          (BlockConv 1 1 1, BatchNorm (stem_out 32 3 16) (9/10) True True ph_flag True),
          (BlockConv 1 1 1, Relu (BatchNorm (stem_out 32 3 16) (9/10) True True ph_flag True) ''relu'')],
       variable_store = [''weight''],
       trainable_variables =
         [stem_weight 3 16,
          LayerParam (BlockConv 1 1 1) ''BatchNorm'' ''beta'',
          LayerParam (BlockConv 1 1 1) ''BatchNorm'' ''gamma''],
       stdout = [''Initialising placeholders ...'', ''Computing Residual Group 1 ...'']\<rparr>)"
  using init_with_blocks [of 1 "[16, 32, 64]" 32 3 10 empty_world 2 "1/10" 0]
  by (simp add: empty_world_def ph_x_def ph_y_def ph_flag_def pre_act_def)

text \<open>
  C2. The claim is that every residual block returns the sum of a transformation branch
  and a shortcut. In the code no pass through the body of the loop of \<open>res_group\<close>
  returns: whatever the arguments and the graph, it ends with an exception, at the
  latest when the second convolution asks for a variable named \<open>weight\<close> again.
\<close>

theorem residual_block_never_completes:
  "\<exists>e w'. res_block flag out_channels group_id block_num shortcut stride w = (Inl e, w')"
  using res_block_raises [of flag out_channels group_id block_num shortcut stride w]
  by (cases "res_block flag out_channels group_id block_num shortcut stride w")
     (auto simp: isl_def)

text \<open>
  C3. After a completed construction, the loss is the mean of the softmax cross-entropy
  between the scores of the dense layer and \<open>input_y\<close>, plus \<open>l2_reg_lambda\<close> times the sum
  of the L2 losses of all trainable variables of the graph; the accuracy is the mean of
  the indicator (cast to float) that the argmax along axis 1 of the scores equals the
  argmax along axis 1 of \<open>input_y\<close>.
\<close>

theorem loss_and_accuracy_definitions:
  assumes "WideRes22_init img ncls ic ocs wm n lr lam w0 = (Inr m, w')"
  shows "loss m =
      Add (ReduceMean (SoftmaxCrossEntropyWithLogits (scores m) (input_y m)) None)
          (Mul (Const lam) (AddN (map (\<lambda>v. L2Loss (Var v)) (trainable_variables w'))))
    \<and> accuracy m =
      ReduceMean (Cast (Equal (ArgMax (scores m) 1 (Some ''predictions''))
                              (ArgMax (input_y m) 1 None)) ''float'') (Some ''accuracy'')
    \<and> predictions m = ArgMax (scores m) 1 (Some ''predictions'')
    \<and> scores m = Dense (out m) True ncls ''scores''
    \<and> input_y m = Placeholder Float32 (Some [None, Some ncls]) ''input_y''"
  unfolding init_completed(5,6) [OF assms]
  by (simp add: built_def loss_expr_def mean_cross_entropy_def l2_sum_def accuracy_expr_def
      correct_expr_def net_scores_def ph_y_def)

theorem loss_and_accuracy_definitions_witness:
  "\<exists>m w'. WideRes22_init 32 10 3 [16, 32, 64] 2 0 (1/10) (1/2000) empty_world = (Inr m, w')
    \<and> loss m =
      Add (ReduceMean (SoftmaxCrossEntropyWithLogits (scores m) (input_y m)) None)
          (Mul (Const (1/2000)) (AddN (map (\<lambda>v. L2Loss (Var v)) (trainable_variables w'))))
    \<and> accuracy m =
      ReduceMean (Cast (Equal (ArgMax (scores m) 1 (Some ''predictions''))
                              (ArgMax (input_y m) 1 None)) ''float'') (Some ''accuracy'')"
proof -
  obtain m w' where
    r: "WideRes22_init 32 10 3 [16, 32, 64] 2 0 (1/10) (1/2000) empty_world = (Inr m, w')"
    using init_example by blast
  show ?thesis
    using r loss_and_accuracy_definitions [OF r] by blast
qed

text \<open>
  C4. The claim is that each of the two 3x3 convolutions of every residual block reads
  \<open>relu(batch_norm(x))\<close> and that a last batch normalisation with ReLU precedes the
  pooling. With \<open>n_blocks = 2\<close> the code raises \<open>ValueError\<close> before any convolution of a
  block is built: the only convolution of the graph is the stem.
\<close>

theorem no_block_convolution_is_built:
  "fst (WideRes22_init 32 10 3 [16, 32, 64] 2 2 (1/10) 0 empty_world) = Inl ValueError
   \<and> filter (\<lambda>e. is_conv (snd e))
        (graph_ops (snd (WideRes22_init 32 10 3 [16, 32, 64] 2 2 (1/10) 0 empty_world)))
      = [(Named ''conv_0'', stem_out 32 3 16)]"
  using init_with_blocks [of 2 "[16, 32, 64]" 32 3 10 empty_world 2 "1/10" 0]
  by (simp add: empty_world_def ph_x_def ph_y_def ph_flag_def pre_act_def stem_out_def)

text \<open>
  C5. The claim is that group \<open>i\<close> is built with \<open>out_channels[i - 1] * width_mult\<close>
  output channels for every \<open>width_mult\<close>. With \<open>n_blocks = 1\<close> the code raises
  \<open>ValueError\<close> for every \<open>width_mult\<close>, and the only variable it has created with
  \<open>tf.get_variable\<close> is the one named \<open>weight\<close> of the stem.
\<close>

theorem every_width_multiplier_raises:
  "fst (WideRes22_init 32 10 3 [16, 32, 64] width_mult 1 (1/10) 0 empty_world) = Inl ValueError
   \<and> variable_store (snd (WideRes22_init 32 10 3 [16, 32, 64] width_mult 1 (1/10) 0 empty_world))
      = [''weight'']"
  using init_with_blocks [of 1 "[16, 32, 64]" 32 3 10 empty_world width_mult "1/10" 0]
  by (simp add: empty_world_def)

text \<open>
  C6. The claim is that the weights of the stem, of both 3x3 convolutions of every block
  and of the 1x1 convolution of every first block are created with a truncated-normal
  initializer of standard deviation 0.1. With \<open>n_blocks = 3\<close> the code raises
  \<open>ValueError\<close> and the stem weight is the only one of them that exists.
\<close>

theorem only_the_stem_weight_is_created:
  "fst (WideRes22_init 32 10 3 [16, 32, 64] 2 3 (1/10) 0 empty_world) = Inl ValueError
   \<and> filter is_weight
        (trainable_variables (snd (WideRes22_init 32 10 3 [16, 32, 64] 2 3 (1/10) 0 empty_world)))
      = [Weight ''weight'' [3, 3, 3, 16] (TruncatedNormal (1/10))]"
  using init_with_blocks [of 3 "[16, 32, 64]" 32 3 10 empty_world 2 "1/10" 0]
  by (simp add: empty_world_def stem_weight_def)




text \<open>
  C8. The claim is about the first and the later blocks of a residual group. In the
  code a call of \<open>res_group\<close> returns only when it has no block to build: then
  \<open>n_blocks \<le> 0\<close>, the result is the input and the graph is unchanged. With any
  \<open>n_blocks > 0\<close> the call ends with an exception.
\<close>

theorem residual_group_returns_only_when_empty:
  assumes "res_group flag x stride out_channels n_blocks group_id w = (Inr y, w')"
  shows "n_blocks \<le> 0 \<and> y = x \<and> w' = w"
proof -
  have n: "n_blocks \<le> 0"
    using res_group_raises [of n_blocks flag x stride out_channels group_id w] assms
    by (cases "0 < n_blocks") auto
  then show ?thesis
    using assms by (simp add: res_group_empty ok_def)
qed

theorem residual_group_returns_only_when_empty_witness:
  "res_group ph_flag (stem_out 32 3 16) 2 32 0 1 empty_world
     = (Inr (stem_out 32 3 16), empty_world)
   \<and> (0::int) \<le> 0"
proof -
  have r: "res_group ph_flag (stem_out 32 3 16) 2 32 0 1 empty_world
             = (Inr (stem_out 32 3 16), empty_world)"
    by (simp add: res_group_def)
  show ?thesis
    using r residual_group_returns_only_when_empty [OF r] by simp
qed

text \<open>
  C9. With \<open>n_blocks = 0\<close> the method \<open>res_group\<close> is the identity: whatever the input
  tensor, the stride, the channel count and the group identifier, it returns its input
  unchanged, and the graph (operations and variables) is left as it was.
\<close>

theorem res_group_zero_blocks_identity:
  "res_group flag x stride out_channels 0 group_id w = (Inr x, w)"
  by (simp add: res_group_def)

text \<open>
  C10, as stated, fails: the graph computes \<open>0 * l2_loss\<close> in float32. After the
  construction with \<open>n_blocks = 0\<close> and \<open>l2_reg_lambda = 0\<close>, when the sum of the L2 losses
  has overflowed to infinity and the mean cross-entropy is 1, the loss is not a number.
\<close>

theorem zero_lambda_loss_with_infinite_l2:
  "scalar Finite overflowed_l2
      (loss (projr (fst (WideRes22_init 32 10 3 [16, 32, 64] 2 0 (1/10) 0 empty_world)))) = NaN
   \<and> scalar Finite overflowed_l2
      (ReduceMean (SoftmaxCrossEntropyWithLogits
         (scores (projr (fst (WideRes22_init 32 10 3 [16, 32, 64] 2 0 (1/10) 0 empty_world))))
         (input_y (projr (fst (WideRes22_init 32 10 3 [16, 32, 64] 2 0 (1/10) 0 empty_world)))))
         None) = Finite 1"
  by (simp add: init_example built_def loss_expr_def mean_cross_entropy_def l2_sum_def)

text \<open>
  C10, amended. With \<open>l2_reg_lambda = 0\<close>, whenever the sum of the L2 losses of the
  trainable variables has a finite value, the value of the loss is exactly the value of
  the mean softmax cross-entropy of the scores against \<open>input_y\<close>.
\<close>

theorem zero_lambda_loss_is_mean_cross_entropy:
  assumes "WideRes22_init img ncls ic ocs wm n lr 0 w0 = (Inr m, w')"
    and "scalar rnd env (AddN (map (\<lambda>v. L2Loss (Var v)) (trainable_variables w'))) = Finite v"
  shows "scalar rnd env (loss m) =
         scalar rnd env (ReduceMean (SoftmaxCrossEntropyWithLogits (scores m) (input_y m)) None)"
  using assms(2)
  unfolding init_completed(5,6) [OF assms(1)]
  by (simp add: built_def loss_expr_def mean_cross_entropy_def l2_sum_def fadd_zero)

theorem zero_lambda_loss_is_mean_cross_entropy_witness:
  "\<exists>m w'. WideRes22_init 32 10 3 [16, 32, 64] 2 0 (1/10) 0 empty_world = (Inr m, w')
    \<and> scalar Finite unit_values
         (AddN (map (\<lambda>v. L2Loss (Var v)) (trainable_variables w'))) = Finite 1
    \<and> scalar Finite unit_values (loss m) =
       scalar Finite unit_values
         (ReduceMean (SoftmaxCrossEntropyWithLogits (scores m) (input_y m)) None)"
proof -
  obtain m w' where
    r: "WideRes22_init 32 10 3 [16, 32, 64] 2 0 (1/10) 0 empty_world = (Inr m, w')"
    using init_example by blast
  have l2: "scalar Finite unit_values
      (AddN (map (\<lambda>v. L2Loss (Var v)) (trainable_variables w'))) = Finite 1"
    by (simp add: unit_values_def)
  show ?thesis
    using r l2 zero_lambda_loss_is_mean_cross_entropy [OF r l2] by blast
qed

end
